theory Spec2Isabelle
  imports Main "HOL-Library.Sublist"
begin

section \<open>The hooks of \<^verbatim>\<open>src/hooks/groups/index.tsx\<close>\<close>

text \<open>
  The hooks call external collaborators (the upload service, the server actions, the
  router, the toast library, the query cache) and do nothing else that a user can
  observe. Each hook body is therefore embedded as a function that returns the list of
  collaborator calls it makes, in order, together with the way it ends.

  The answers of the collaborators are inputs of the model: an environment gives, for
  every call, the value its promise settles with, as a function of the arguments of the
  call. The type \<open>'f\<close> of files is arbitrary; two files of one submission are two
  values of it. A promise either rejects or resolves;
  a resolved value that the source tests for truthiness before use is an \<open>option\<close>
  (\<open>None\<close> is \<^verbatim>\<open>undefined\<close> or \<^verbatim>\<open>null\<close>).
  Calls to \<^verbatim>\<open>console.log\<close> and \<^verbatim>\<open>console.error\<close> are left out.
\<close>

subsection \<open>Values exchanged with the collaborators\<close>

datatype 'a promise = Rejects | Resolves 'a

record uploaded_file =
  uuid :: string

record status_result =
  status :: int

record action_result = status_result +
  message :: string

record 'g group_result = status_result +
  group :: 'g

datatype field_tag = IMAGE | ICON | NAME | DESCRIPTION | JSONDESCRIPTION | HTMLDESCRIPTION

text \<open>
  The payload tracked on the presence channel, \<^verbatim>\<open>{ member: { userid } }\<close>; the
  actions dispatched to the store; the two kinds of search.
\<close>

record member_id =
  userid :: string

record presence_payload =
  member_payload :: member_id

datatype action = OnOnline "string list" | OnClearSearch

datatype search_kind = GROUPS | POSTS

text \<open>
  What a hook does to the outside: one constructor per collaborator function the source
  calls, with the arguments of the call. \<open>Toast title description\<close> is
  \<^verbatim>\<open>toast(title, {description})\<close>; the description is \<open>None\<close> where the source
  passes \<^verbatim>\<open>undefined\<close>. \<open>Dispatch (OnOnline ids)\<close> is
  \<^verbatim>\<open>dispatch(onOnline({members: ids.map(id => ({id}))}))\<close>, \<open>Track c p\<close> is
  \<^verbatim>\<open>track(p)\<close> on the channel named \<open>c\<close>, and \<open>Refetch d\<close> is
  \<^verbatim>\<open>refetch()\<close> of the query whose key is \<^verbatim>\<open>["search-data", d]\<close>.
\<close>

datatype 'f event =
    UploadFile 'f
  | UpDateGroupSettings string field_tag string string
  | UpdateGroupGallery string string
  | RemoveGroupGallery string string
  | AddCustomDomain string string
  | Toast string "string option"
  | InvalidateQueries string
  | RouterPush string
  | FormReset
  | Dispatch action
  | Track string presence_payload
  | Refetch string
  | SearchGroups search_kind string

record 'f env =
  uploadFile :: "'f \<Rightarrow> uploaded_file option promise"
  onUpDateGroupSettings :: "string \<Rightarrow> field_tag \<Rightarrow> string \<Rightarrow> string \<Rightarrow> status_result promise"
  onUpdateGroupGallery :: "string \<Rightarrow> string \<Rightarrow> action_result option promise"
  onAddCustomDomain :: "string \<Rightarrow> string \<Rightarrow> action_result promise"

text \<open>
  How a block of an async function ends: it falls through to the next statement, it
  returns from the function, or it throws (a \<^verbatim>\<open>TypeError\<close> of the language, or the
  rejection of an awaited promise that nothing catches).
\<close>

datatype error = TypeError | Rejected

datatype flow = Continue | Return | Throw error

type_synonym 'f block = "'f event list \<times> flow"

definition then_do :: "'f block \<Rightarrow> 'f block \<Rightarrow> 'f block" where
  "then_do a b = (case snd a of Continue \<Rightarrow> (fst a @ fst b, snd b) | _ \<Rightarrow> a)"

text \<open>JavaScript truthiness of an optional string: defined and not empty.\<close>

definition truthy :: "string option \<Rightarrow> bool" where
  "truthy v = (case v of None \<Rightarrow> False | Some s \<Rightarrow> s \<noteq> [])"

subsection \<open>\<^verbatim>\<open>useGroupSettings\<close>: the submit mutation\<close>

text \<open>
  The form values, \<^verbatim>\<open>z.infer<typeof GroupSettingsSchema>\<close>. The schema is not among the
  sources; the fields and their optionality are read off the mutation, which guards
  \<^verbatim>\<open>values.thumbnail\<close> and \<^verbatim>\<open>values.icon\<close> for being defined before it
  reads their length, and tests the three strings for truthiness. A file input holds a
  list of files.
\<close>

record 'f group_settings_values =
  thumbnail :: "'f list option"
  icon :: "'f list option"
  name :: "string option"
  description :: "string option"
  jsondescription :: "string option"

definition settings_path :: "string \<Rightarrow> string" where
  "settings_path groupid = ''/group/'' @ groupid @ ''/settings''"

definition thumbnail_failed :: "'f event" where
  "thumbnail_failed = Toast ''Error'' (Some ''Failed to update thumbnail.'')"

definition icon_failed :: "'f event" where
  "icon_failed = Toast ''Error'' (Some ''Failed to update icon.'')"

definition form_is_empty_toast :: "'f event" where
  "form_is_empty_toast = Toast ''Error'' (Some ''Oops! looks like your form is empty'')"

definition group_data_updated :: "'f event" where
  "group_data_updated = Toast ''Success'' (Some ''Group data updated'')"

text \<open>
  Lines 283-304. Everything in the \<^verbatim>\<open>try\<close> block that throws, the two explicit
  \<^verbatim>\<open>throw\<close>s and a rejected promise alike, lands in the \<^verbatim>\<open>catch\<close>, which
  returns from the mutation with the toast.
\<close>

definition thumbnail_step :: "'f env \<Rightarrow> string \<Rightarrow> 'f group_settings_values \<Rightarrow> 'f block" where
  "thumbnail_step env groupid values =
     (case thumbnail values of
        None \<Rightarrow> ([], Continue)
      | Some [] \<Rightarrow> ([], Continue)
      | Some (file # rest) \<Rightarrow>
          (case uploadFile env file of
             Rejects \<Rightarrow> ([UploadFile file, thumbnail_failed], Return)
           | Resolves None \<Rightarrow> ([UploadFile file, thumbnail_failed], Return)
           | Resolves (Some uploaded) \<Rightarrow>
               if uuid uploaded = [] then ([UploadFile file, thumbnail_failed], Return)
               else
                 (case onUpDateGroupSettings env groupid IMAGE (uuid uploaded) (settings_path groupid) of
                    Rejects \<Rightarrow>
                      ([UploadFile file,
                        UpDateGroupSettings groupid IMAGE (uuid uploaded) (settings_path groupid),
                        thumbnail_failed], Return)
                  | Resolves updated \<Rightarrow>
                      if status updated \<noteq> 200 then
                        ([UploadFile file,
                          UpDateGroupSettings groupid IMAGE (uuid uploaded) (settings_path groupid),
                          thumbnail_failed], Return)
                      else
                        ([UploadFile file,
                          UpDateGroupSettings groupid IMAGE (uuid uploaded) (settings_path groupid)],
                         Continue))))"

text \<open>Lines 306-327, the same block for the icon.\<close>

definition icon_step :: "'f env \<Rightarrow> string \<Rightarrow> 'f group_settings_values \<Rightarrow> 'f block" where
  "icon_step env groupid values =
     (case icon values of
        None \<Rightarrow> ([], Continue)
      | Some [] \<Rightarrow> ([], Continue)
      | Some (file # rest) \<Rightarrow>
          (case uploadFile env file of
             Rejects \<Rightarrow> ([UploadFile file, icon_failed], Return)
           | Resolves None \<Rightarrow> ([UploadFile file, icon_failed], Return)
           | Resolves (Some uploaded) \<Rightarrow>
               if uuid uploaded = [] then ([UploadFile file, icon_failed], Return)
               else
                 (case onUpDateGroupSettings env groupid ICON (uuid uploaded) (settings_path groupid) of
                    Rejects \<Rightarrow>
                      ([UploadFile file,
                        UpDateGroupSettings groupid ICON (uuid uploaded) (settings_path groupid),
                        icon_failed], Return)
                  | Resolves updated \<Rightarrow>
                      if status updated \<noteq> 200 then
                        ([UploadFile file,
                          UpDateGroupSettings groupid ICON (uuid uploaded) (settings_path groupid),
                          icon_failed], Return)
                      else
                        ([UploadFile file,
                          UpDateGroupSettings groupid ICON (uuid uploaded) (settings_path groupid)],
                         Continue))))"

text \<open>
  Lines 329-341, 344-356 and 357-369: the three string fields. No \<^verbatim>\<open>try\<close> surrounds
  these calls, so a rejection leaves the mutation as a rejection.
\<close>

definition name_step :: "'f env \<Rightarrow> string \<Rightarrow> 'f group_settings_values \<Rightarrow> 'f block" where
  "name_step env groupid values =
     (case name values of
        None \<Rightarrow> ([], Continue)
      | Some v \<Rightarrow>
          if v = [] then ([], Continue)
          else
            (case onUpDateGroupSettings env groupid NAME v (settings_path groupid) of
               Rejects \<Rightarrow>
                 ([UpDateGroupSettings groupid NAME v (settings_path groupid)], Throw Rejected)
             | Resolves updated \<Rightarrow>
                 if status updated \<noteq> 200 then
                   ([UpDateGroupSettings groupid NAME v (settings_path groupid),
                     form_is_empty_toast], Return)
                 else ([UpDateGroupSettings groupid NAME v (settings_path groupid)], Continue)))"

definition description_step :: "'f env \<Rightarrow> string \<Rightarrow> 'f group_settings_values \<Rightarrow> 'f block" where
  "description_step env groupid values =
     (case description values of
        None \<Rightarrow> ([], Continue)
      | Some v \<Rightarrow>
          if v = [] then ([], Continue)
          else
            (case onUpDateGroupSettings env groupid DESCRIPTION v (settings_path groupid) of
               Rejects \<Rightarrow>
                 ([UpDateGroupSettings groupid DESCRIPTION v (settings_path groupid)], Throw Rejected)
             | Resolves updated \<Rightarrow>
                 if status updated \<noteq> 200 then
                   ([UpDateGroupSettings groupid DESCRIPTION v (settings_path groupid),
                     form_is_empty_toast], Return)
                 else
                   ([UpDateGroupSettings groupid DESCRIPTION v (settings_path groupid)], Continue)))"

definition jsondescription_step :: "'f env \<Rightarrow> string \<Rightarrow> 'f group_settings_values \<Rightarrow> 'f block" where
  "jsondescription_step env groupid values =
     (case jsondescription values of
        None \<Rightarrow> ([], Continue)
      | Some v \<Rightarrow>
          if v = [] then ([], Continue)
          else
            (case onUpDateGroupSettings env groupid JSONDESCRIPTION v (settings_path groupid) of
               Rejects \<Rightarrow>
                 ([UpDateGroupSettings groupid JSONDESCRIPTION v (settings_path groupid)],
                  Throw Rejected)
             | Resolves updated \<Rightarrow>
                 if status updated \<noteq> 200 then
                   ([UpDateGroupSettings groupid JSONDESCRIPTION v (settings_path groupid),
                     form_is_empty_toast], Return)
                 else
                   ([UpDateGroupSettings groupid JSONDESCRIPTION v (settings_path groupid)],
                    Continue)))"

text \<open>
  Lines 370-383. \<^verbatim>\<open>a && b\<close> evaluates \<open>b\<close> only when \<open>a\<close> is true, and
  \<^verbatim>\<open>!values.thumbnail.length\<close> throws a \<^verbatim>\<open>TypeError\<close> when the field is
  undefined.
\<close>

definition js_and :: "error + bool \<Rightarrow> error + bool \<Rightarrow> error + bool" where
  "js_and a b = (case a of Inl e \<Rightarrow> Inl e | Inr False \<Rightarrow> Inr False | Inr True \<Rightarrow> b)"

definition not_length :: "'f list option \<Rightarrow> error + bool" where
  "not_length files = (case files of None \<Rightarrow> Inl TypeError | Some fs \<Rightarrow> Inr (length fs = 0))"

definition form_is_empty :: "'f group_settings_values \<Rightarrow> error + bool" where
  "form_is_empty values =
     js_and (Inr (\<not> truthy (description values)))
    (js_and (Inr (\<not> truthy (name values)))
    (js_and (not_length (thumbnail values))
    (js_and (not_length (icon values))
            (Inr (\<not> truthy (jsondescription values))))))"

definition final_step :: "'f group_settings_values \<Rightarrow> 'f block" where
  "final_step values =
     (case form_is_empty values of
        Inl e \<Rightarrow> ([], Throw e)
      | Inr True \<Rightarrow> ([form_is_empty_toast], Return)
      | Inr False \<Rightarrow> ([group_data_updated], Return))"

definition useGroupSettings_mutationFn ::
  "'f env \<Rightarrow> string \<Rightarrow> 'f group_settings_values \<Rightarrow> 'f block" where
  "useGroupSettings_mutationFn env groupid values =
     then_do (thumbnail_step env groupid values)
    (then_do (icon_step env groupid values)
    (then_do (name_step env groupid values)
    (then_do (description_step env groupid values)
    (then_do (jsondescription_step env groupid values)
             (final_step values)))))"

text \<open>
  Lines 280-390, the mutation as \<^verbatim>\<open>useMutation\<close> runs it: when the mutation function
  returns, \<^verbatim>\<open>onSuccess\<close> invalidates the \<^verbatim>\<open>group-info\<close> query (which makes the
  query cache fetch the group again); when it throws, \<^verbatim>\<open>onSuccess\<close> does not run.
\<close>

definition useGroupSettings_update ::
  "'f env \<Rightarrow> string \<Rightarrow> 'f group_settings_values \<Rightarrow> 'f block" where
  "useGroupSettings_update env groupid values =
     (case useGroupSettings_mutationFn env groupid values of
        (trace, Throw e) \<Rightarrow> (trace, Throw e)
      | (trace, ended) \<Rightarrow> (trace @ [InvalidateQueries ''group-info''], Return))"

text \<open>
  Line 393, in the body of the hook: \<open>data\<close> is what \<^verbatim>\<open>useQuery\<close> holds for the
  key \<^verbatim>\<open>["group-info"]\<close>, undefined until the fetch has returned.
  \<^verbatim>\<open>data?.status\<close> is undefined when \<open>data\<close> is.
\<close>

definition useGroupSettings_redirect :: "'g group_result option \<Rightarrow> 'f event list" where
  "useGroupSettings_redirect data =
     (if map_option status data \<noteq> Some 200 then [RouterPush ''/group/create''] else [])"

subsection \<open>\<^verbatim>\<open>useGroupInfo\<close>\<close>

text \<open>
  Lines 451-467. The hook returns \<^verbatim>\<open>{ group }\<close> or throws: destructuring
  \<^verbatim>\<open>undefined\<close> is a \<^verbatim>\<open>TypeError\<close>. \<^verbatim>\<open>router.push\<close> returns to its
  caller.
\<close>

definition useGroupInfo :: "'g group_result option \<Rightarrow> 'f event list \<times> (error + 'g)" where
  "useGroupInfo data =
     (let pushed = (if data = None then [RouterPush ''/explore''] else []) in
      case data of
        None \<Rightarrow> (pushed, Inl TypeError)
      | Some d \<Rightarrow>
          (pushed @ (if status d \<noteq> 200 then [RouterPush ''/explore''] else []), Inr (group d)))"

subsection \<open>\<^verbatim>\<open>useMediaGallery\<close>: the add mutation\<close>









subsection \<open>\<^verbatim>\<open>useCustomDomain\<close>: the add-domain mutation\<close>

text \<open>
  Lines 812-826. \<^verbatim>\<open>useMutation\<close> runs \<^verbatim>\<open>onMutate\<close>, then the mutation function;
  when its promise resolves it runs \<^verbatim>\<open>onSuccess\<close> with the result, and in either case
  \<^verbatim>\<open>onSettled\<close> last. No \<^verbatim>\<open>onError\<close> is given.
\<close>

definition useCustomDomain_mutate :: "'f env \<Rightarrow> string \<Rightarrow> string \<Rightarrow> 'f block" where
  "useCustomDomain_mutate env groupid domain =
     (case onAddCustomDomain env groupid domain of
        Rejects \<Rightarrow>
          ([FormReset, AddCustomDomain groupid domain, InvalidateQueries ''domain-config''],
           Throw Rejected)
      | Resolves data \<Rightarrow>
          ([FormReset, AddCustomDomain groupid domain,
            Toast (if status data = 200 then ''Success'' else ''Error'') (Some (message data)),
            InvalidateQueries ''domain-config''],
           Return))"

subsection \<open>\<^verbatim>\<open>useGroupChatOnline\<close>\<close>

text \<open>
  Lines 77-87, the handler of the presence \<^verbatim>\<open>sync\<close> event. The snapshot
  \<^verbatim>\<open>channel.presenceState()\<close> maps each key to a list of payloads; it is given as the
  list of its entries in the order \<^verbatim>\<open>for ... in\<close> visits them. Reading
  \<^verbatim>\<open>state[user][0].member\<close> throws when the list is empty.
\<close>

fun sync_handler :: "(string \<times> presence_payload list) list \<Rightarrow> 'f block" where
  "sync_handler [] = ([], Return)"
| "sync_handler ((user, []) # state) = ([], Throw TypeError)"
| "sync_handler ((user, first # others) # state) =
     (case sync_handler state of
        (later, ended) \<Rightarrow> (Dispatch (OnOnline [userid (member_payload first)]) # later, ended))"

text \<open>Lines 88-96, the callback given to \<^verbatim>\<open>subscribe\<close>, on the channel of line 74.\<close>

definition subscribe_callback :: "string \<Rightarrow> string \<Rightarrow> 'f event list" where
  "subscribe_callback uid channel_status =
     (if channel_status = ''SUBSCRIBED''
      then [Track ''tracking'' \<lparr>member_payload = \<lparr>userid = uid\<rparr>\<rparr>]
      else [])"

subsection \<open>\<^verbatim>\<open>useSearch\<close>\<close>

text \<open>
  Lines 131-185. The hook holds two pieces of state, \<^verbatim>\<open>query\<close> and
  \<^verbatim>\<open>debounce\<close>, and at most one pending timeout: the effect of line 140 runs after
  every render in which \<^verbatim>\<open>query\<close> has changed, its cleanup clears the timeout of the
  previous run, and it sets a new one that fires 1000 ms later with the value of
  \<^verbatim>\<open>query\<close> it closed over. Setting a state to the value it has renders nothing and
  runs no effect. Time is in milliseconds.

  The dispatches of lines 158-174 depend on the fetch state of the query cache and are
  left out.
\<close>

record search_state =
  query :: string
  debounce :: string
  timer :: "(nat \<times> string) option"

text \<open>
  Lines 176-178, the effect that runs when \<^verbatim>\<open>debounce\<close> has changed, with the query
  function of lines 149-154 that \<^verbatim>\<open>refetch\<close> runs.
\<close>

definition debounce_effect :: "search_kind \<Rightarrow> string \<Rightarrow> 'f event list" where
  "debounce_effect search d =
     (if d \<noteq> [] then Refetch d # (if search = GROUPS then [SearchGroups search d] else [])
      else [Dispatch OnClearSearch])"

text \<open>The first render, at time \<open>now\<close>: both effects run.\<close>

definition useSearch_mount :: "search_kind \<Rightarrow> nat \<Rightarrow> 'f event list \<times> search_state" where
  "useSearch_mount search now =
     (debounce_effect search [], \<lparr>query = [], debounce = [], timer = Some (now + 1000, [])\<rparr>)"

text \<open>Line 142, the timeout's callback \<^verbatim>\<open>setDebounce(query)\<close>, and what it sets off.\<close>

definition timer_fires :: "search_kind \<Rightarrow> search_state \<Rightarrow> 'f event list \<times> search_state" where
  "timer_fires search s =
     (case timer s of
        None \<Rightarrow> ([], s)
      | Some (due, q) \<Rightarrow>
          if q = debounce s then ([], s\<lparr>timer := None\<rparr>)
          else (debounce_effect search q, s\<lparr>debounce := q, timer := None\<rparr>))"

text \<open>Time passes until \<open>now\<close>: a timeout that is due fires.\<close>

definition advance :: "search_kind \<Rightarrow> nat \<Rightarrow> search_state \<Rightarrow> 'f event list \<times> search_state" where
  "advance search now s =
     (case timer s of
        None \<Rightarrow> ([], s)
      | Some (due, q) \<Rightarrow> if due \<le> now then timer_fires search s else ([], s))"

text \<open>
  Lines 137-145: the input changes to \<open>v\<close> at time \<open>now\<close>;
  \<^verbatim>\<open>setQuery(e.target.value)\<close> and the effect on \<^verbatim>\<open>query\<close>.
\<close>

definition onSearchQuery ::
  "search_kind \<Rightarrow> nat \<times> string \<Rightarrow> search_state \<Rightarrow> 'f event list \<times> search_state" where
  "onSearchQuery search change s =
     (case advance search (fst change) s of
        (fired, s') \<Rightarrow>
          if snd change = query s' then (fired, s')
          else (fired, s'\<lparr>query := snd change, timer := Some (fst change + 1000, snd change)\<rparr>))"

fun input_changes ::
  "search_kind \<Rightarrow> (nat \<times> string) list \<Rightarrow> search_state \<Rightarrow> 'f event list \<times> search_state" where
  "input_changes search [] s = ([], s)"
| "input_changes search (change # changes) s =
     (case onSearchQuery search change s of
        (first, s') \<Rightarrow>
          (case input_changes search changes s' of
             (later, s'') \<Rightarrow> (first @ later, s'')))"

text \<open>A run: the changes, and then no further input until the pending timeout has fired.\<close>

definition changes_then_quiet ::
  "search_kind \<Rightarrow> (nat \<times> string) list \<Rightarrow> search_state \<Rightarrow> 'f event list \<times> search_state" where
  "changes_then_quiet search changes s =
     (case input_changes search changes s of
        (during, s') \<Rightarrow>
          (case timer_fires search s' of
             (after, s'') \<Rightarrow> (during @ after, s'')))"

section \<open>Observations and the vocabulary of the properties\<close>

subsection \<open>What a trace shows\<close>

fun settings_tags :: "'f event list \<Rightarrow> field_tag list" where
  "settings_tags [] = []"
| "settings_tags (UpDateGroupSettings g t v p # es) = t # settings_tags es"
| "settings_tags (e # es) = settings_tags es"

fun uploads :: "'f event list \<Rightarrow> 'f list" where
  "uploads [] = []"
| "uploads (UploadFile f # es) = f # uploads es"
| "uploads (e # es) = uploads es"


fun is_settings_call :: "'f event \<Rightarrow> bool" where
  "is_settings_call (UpDateGroupSettings g t v p) = True"
| "is_settings_call e = False"

fun is_toast :: "'f event \<Rightarrow> bool" where
  "is_toast (Toast t d) = True"
| "is_toast e = False"


fun is_success_toast :: "'f event \<Rightarrow> bool" where
  "is_success_toast (Toast t d) = (t = ''Success'')"
| "is_success_toast e = False"


subsection \<open>Group settings: which fields a submission sets, and when a step succeeds\<close>

definition file_present :: "'f list option \<Rightarrow> bool" where
  "file_present files = (case files of Some (f # fs) \<Rightarrow> True | _ \<Rightarrow> False)"

definition present_tags :: "'f group_settings_values \<Rightarrow> field_tag list" where
  "present_tags values =
     (if file_present (thumbnail values) then [IMAGE] else []) @
     (if file_present (icon values) then [ICON] else []) @
     (if truthy (name values) then [NAME] else []) @
     (if truthy (description values) then [DESCRIPTION] else []) @
     (if truthy (jsondescription values) then [JSONDESCRIPTION] else [])"

definition update_succeeds :: "'f env \<Rightarrow> string \<Rightarrow> field_tag \<Rightarrow> string \<Rightarrow> bool" where
  "update_succeeds env groupid tag v =
     (case onUpDateGroupSettings env groupid tag v (settings_path groupid) of
        Rejects \<Rightarrow> False
      | Resolves updated \<Rightarrow> status updated = 200)"

definition file_step_succeeds :: "'f env \<Rightarrow> string \<Rightarrow> field_tag \<Rightarrow> 'f list option \<Rightarrow> bool" where
  "file_step_succeeds env groupid tag files =
     (case files of
        Some (f # fs) \<Rightarrow>
          (case uploadFile env f of
             Resolves (Some uploaded) \<Rightarrow>
               uuid uploaded \<noteq> [] \<and> update_succeeds env groupid tag (uuid uploaded)
           | _ \<Rightarrow> False)
      | _ \<Rightarrow> True)"

definition text_step_succeeds :: "'f env \<Rightarrow> string \<Rightarrow> field_tag \<Rightarrow> string option \<Rightarrow> bool" where
  "text_step_succeeds env groupid tag v =
     (case v of None \<Rightarrow> True | Some s \<Rightarrow> s = [] \<or> update_succeeds env groupid tag s)"

definition all_steps_succeed :: "'f env \<Rightarrow> string \<Rightarrow> 'f group_settings_values \<Rightarrow> bool" where
  "all_steps_succeed env groupid values =
     (file_step_succeeds env groupid IMAGE (thumbnail values) \<and>
      file_step_succeeds env groupid ICON (icon values) \<and>
      text_step_succeeds env groupid NAME (name values) \<and>
      text_step_succeeds env groupid DESCRIPTION (description values) \<and>
      text_step_succeeds env groupid JSONDESCRIPTION (jsondescription values))"

definition only_name_set :: "'f group_settings_values \<Rightarrow> bool" where
  "only_name_set values =
     (truthy (name values) \<and> \<not> file_present (thumbnail values) \<and> \<not> file_present (icon values) \<and>
      \<not> truthy (description values) \<and> \<not> truthy (jsondescription values))"

definition nothing_set :: "'f group_settings_values \<Rightarrow> bool" where
  "nothing_set values =
     (\<not> file_present (thumbnail values) \<and> \<not> file_present (icon values) \<and>
      \<not> truthy (name values) \<and> \<not> truthy (description values) \<and>
      \<not> truthy (jsondescription values))"

text \<open>
  The update calls a submission is to make, field by field in the fixed order: a field
  that is absent or empty makes no call and lets the next field have its turn; a field
  that is present makes its call, carrying the uuid of the uploaded file or the text, and
  lets the next field have its turn when the call is answered with status 200. A file
  field whose upload yields no uuid makes no call and ends the sequence.
\<close>

definition uploaded_uuid :: "'f env \<Rightarrow> 'f list option \<Rightarrow> string option" where
  "uploaded_uuid env files =
     (case files of
        Some (f # fs) \<Rightarrow>
          (case uploadFile env f of
             Resolves (Some uploaded) \<Rightarrow> if uuid uploaded = [] then None else Some (uuid uploaded)
           | _ \<Rightarrow> None)
      | _ \<Rightarrow> None)"

fun field_present :: "'f group_settings_values \<Rightarrow> field_tag \<Rightarrow> bool" where
  "field_present values IMAGE = file_present (thumbnail values)"
| "field_present values ICON = file_present (icon values)"
| "field_present values NAME = truthy (name values)"
| "field_present values DESCRIPTION = truthy (description values)"
| "field_present values JSONDESCRIPTION = truthy (jsondescription values)"
| "field_present values HTMLDESCRIPTION = False"

fun field_value :: "'f env \<Rightarrow> 'f group_settings_values \<Rightarrow> field_tag \<Rightarrow> string option" where
  "field_value env values IMAGE = uploaded_uuid env (thumbnail values)"
| "field_value env values ICON = uploaded_uuid env (icon values)"
| "field_value env values NAME = name values"
| "field_value env values DESCRIPTION = description values"
| "field_value env values JSONDESCRIPTION = jsondescription values"
| "field_value env values HTMLDESCRIPTION = None"

definition field_calls ::
  "'f env \<Rightarrow> string \<Rightarrow> 'f group_settings_values \<Rightarrow> field_tag \<Rightarrow> 'f event list" where
  "field_calls env groupid values tag =
     (if field_present values tag then
        (case field_value env values tag of
           None \<Rightarrow> []
         | Some v \<Rightarrow> [UpDateGroupSettings groupid tag v (settings_path groupid)])
      else [])"

definition field_passes ::
  "'f env \<Rightarrow> string \<Rightarrow> 'f group_settings_values \<Rightarrow> field_tag \<Rightarrow> bool" where
  "field_passes env groupid values tag =
     (if field_present values tag then
        (case field_value env values tag of
           None \<Rightarrow> False
         | Some v \<Rightarrow> update_succeeds env groupid tag v)
      else True)"

fun calls_until_failure ::
  "'f env \<Rightarrow> string \<Rightarrow> 'f group_settings_values \<Rightarrow> field_tag list \<Rightarrow> 'f event list" where
  "calls_until_failure env groupid values [] = []"
| "calls_until_failure env groupid values (tag # tags) =
     field_calls env groupid values tag @
     (if field_passes env groupid values tag then calls_until_failure env groupid values tags
      else [])"

text \<open>A block of the mutation does for a field what the sequence above asks of it.\<close>

definition performs ::
  "'f block \<Rightarrow> 'f env \<Rightarrow> string \<Rightarrow> 'f group_settings_values \<Rightarrow> field_tag \<Rightarrow> bool" where
  "performs s env groupid values tag =
     (filter is_settings_call (fst s) = field_calls env groupid values tag \<and>
      (snd s = Continue) = field_passes env groupid values tag)"

definition file_step_fails :: "'f env \<Rightarrow> string \<Rightarrow> field_tag \<Rightarrow> 'f list option \<Rightarrow> bool" where
  "file_step_fails env groupid tag files =
     (file_present files \<and> \<not> file_step_succeeds env groupid tag files)"

definition issues :: "'f block \<Rightarrow> field_tag list \<Rightarrow> bool" where
  "issues s tags =
     (prefix (settings_tags (fst s)) tags \<and>
      (snd s = Continue \<longrightarrow> settings_tags (fst s) = tags))"

subsection \<open>Gallery: which images are committed, and what a failure leaves behind\<close>








subsection \<open>Custom domain and presence\<close>

fun is_invalidation :: "'f event \<Rightarrow> bool" where
  "is_invalidation (InvalidateQueries k) = True"
| "is_invalidation e = False"

text \<open>The dispatch for one entry of the snapshot: the user id of the entry's first payload.\<close>

definition announces :: "string \<times> presence_payload list \<Rightarrow> 'f event" where
  "announces entry = Dispatch (OnOnline [userid (member_payload (hd (snd entry)))])"

subsection \<open>Search: bursts of input\<close>

text \<open>
  \<open>spaced t v changes\<close>: after a change to \<open>v\<close> at time \<open>t\<close>, each further change
  comes less than 1000 ms after the one before it and changes the value of the input.
\<close>

fun spaced :: "nat \<Rightarrow> string \<Rightarrow> (nat \<times> string) list \<Rightarrow> bool" where
  "spaced t v [] = True"
| "spaced t v (change # changes) =
     (t \<le> fst change \<and> fst change < t + 1000 \<and> snd change \<noteq> v \<and>
      spaced (fst change) (snd change) changes)"

text \<open>No timeout is pending whose firing would change \<^verbatim>\<open>debounce\<close>.\<close>

definition idle :: "search_state \<Rightarrow> bool" where
  "idle s = (case timer s of None \<Rightarrow> True | Some (due, q) \<Rightarrow> q = debounce s)"

subsection \<open>Concrete collaborators and submissions\<close>

text \<open>
  Files are numbered. \<open>accepting\<close> stores every file and answers every action with
  status 200; the others differ from it in one collaborator.
\<close>

definition accepting :: "nat env" where
  "accepting =
     \<lparr>uploadFile = (\<lambda>f. Resolves (Some \<lparr>uuid = ''u'' @ replicate f CHR ''x''\<rparr>)),
      onUpDateGroupSettings = (\<lambda>g t v p. Resolves \<lparr>status = 200\<rparr>),
      onUpdateGroupGallery = (\<lambda>g u. Resolves (Some \<lparr>status = 200, message = ''ok''\<rparr>)),
      onAddCustomDomain = (\<lambda>g d. Resolves \<lparr>status = 200, message = ''ok''\<rparr>)\<rparr>"

definition no_upload :: "nat env" where
  "no_upload = accepting\<lparr>uploadFile := (\<lambda>f. Resolves None)\<rparr>"

definition refusing :: "nat env" where
  "refusing = accepting\<lparr>onUpDateGroupSettings := (\<lambda>g t v p. Resolves \<lparr>status = 400\<rparr>)\<rparr>"

definition refusing_icon :: "nat env" where
  "refusing_icon =
     accepting\<lparr>onUpDateGroupSettings :=
       (\<lambda>g t v p. Resolves \<lparr>status = (if t = ICON then 400 else 200)\<rparr>)\<rparr>"

definition alpha_only :: "nat group_settings_values" where
  "alpha_only =
     \<lparr>thumbnail = Some [], icon = Some [], name = Some ''Alpha'', description = None,
      jsondescription = None\<rparr>"

definition thumbnail_and_name :: "nat group_settings_values" where
  "thumbnail_and_name =
     \<lparr>thumbnail = Some [1], icon = Some [], name = Some ''Alpha'', description = None,
      jsondescription = None\<rparr>"

definition all_fields :: "nat group_settings_values" where
  "all_fields =
     \<lparr>thumbnail = Some [1], icon = Some [2], name = Some ''Alpha'', description = Some ''About'',
      jsondescription = Some ''{}''\<rparr>"

definition untouched :: "nat group_settings_values" where
  "untouched =
     \<lparr>thumbnail = None, icon = None, name = None, description = None, jsondescription = None\<rparr>"

definition no_files_chosen :: "nat group_settings_values" where
  "no_files_chosen =
     \<lparr>thumbnail = Some [], icon = Some [], name = None, description = None, jsondescription = None\<rparr>"

definition thumbnail_without_icon :: "nat group_settings_values" where
  "thumbnail_without_icon =
     \<lparr>thumbnail = Some [1], icon = None, name = None, description = None, jsondescription = None\<rparr>"

definition refusing_description :: "nat env" where
  "refusing_description =
     accepting\<lparr>onUpDateGroupSettings :=
       (\<lambda>g t v p. Resolves \<lparr>status = (if t = DESCRIPTION then 400 else 200)\<rparr>)\<rparr>"

definition name_and_description :: "nat group_settings_values" where
  "name_and_description =
     \<lparr>thumbnail = Some [], icon = Some [], name = Some ''Alpha'', description = Some ''About'',
      jsondescription = Some ''{}''\<rparr>"

definition icon_without_thumbnail :: "nat group_settings_values" where
  "icon_without_thumbnail =
     \<lparr>thumbnail = None, icon = Some [2], name = None, description = None, jsondescription = None\<rparr>"





definition domain_unreachable :: "nat env" where
  "domain_unreachable = accepting\<lparr>onAddCustomDomain := (\<lambda>g d. Rejects)\<rparr>"

definition domain_taken :: "nat env" where
  "domain_taken =
     accepting\<lparr>onAddCustomDomain := (\<lambda>g d. Resolves \<lparr>status = 400, message = ''taken''\<rparr>)\<rparr>"

definition two_clients :: "(string \<times> presence_payload list) list" where
  "two_clients =
     [(''k1'', [\<lparr>member_payload = \<lparr>userid = ''ann''\<rparr>\<rparr>, \<lparr>member_payload = \<lparr>userid = ''ann2''\<rparr>\<rparr>]),
      (''k2'', [\<lparr>member_payload = \<lparr>userid = ''bob''\<rparr>\<rparr>])]"

definition mounted :: search_state where
  "mounted = snd (useSearch_mount GROUPS 0 :: nat event list \<times> search_state)"

definition after_alp :: search_state where
  "after_alp = \<lparr>query = ''alp'', debounce = ''alp'', timer = None\<rparr>"

definition emptied :: search_state where
  "emptied = \<lparr>query = [], debounce = ''alp'', timer = Some (7000, [])\<rparr>"

section \<open>Properties of the group settings mutation\<close>

lemmas step_defs = useGroupSettings_mutationFn_def then_do_def thumbnail_step_def icon_step_def
  name_step_def description_step_def jsondescription_step_def final_step_def form_is_empty_def
  js_and_def not_length_def truthy_def settings_path_def thumbnail_failed_def icon_failed_def
  form_is_empty_toast_def group_data_updated_def

lemmas pred_defs = file_present_def present_tags_def update_succeeds_def file_step_succeeds_def
  text_step_succeeds_def all_steps_succeed_def only_name_set_def nothing_set_def

subsection \<open>Sequencing\<close>

lemma then_do_Continue: "snd a = Continue \<Longrightarrow> then_do a b = (fst a @ fst b, snd b)"
  by (simp add: then_do_def)

lemma then_do_stops: "snd a \<noteq> Continue \<Longrightarrow> then_do a b = a"
  by (cases "snd a") (simp_all add: then_do_def)

lemma then_do_nothing: "then_do ([], Continue) b = b"
  by (simp add: then_do_def)

lemma set_fst_then_do:
  "set (fst (then_do a b)) = set (fst a) \<union> (if snd a = Continue then set (fst b) else {})"
  by (cases "snd a") (simp_all add: then_do_def)

lemma settings_tags_append: "settings_tags (xs @ ys) = settings_tags xs @ settings_tags ys"
  by (induction xs rule: settings_tags.induct) simp_all

lemma issues_then_do: "issues a xs \<Longrightarrow> issues b ys \<Longrightarrow> issues (then_do a b) (xs @ ys)"
  unfolding issues_def
  by (cases "snd a") (auto simp: then_do_def settings_tags_append intro: prefix_order.trans)

lemma issues_Continue: "issues s tags \<Longrightarrow> snd s = Continue \<Longrightarrow> settings_tags (fst s) = tags"
  by (simp add: issues_def)

subsection \<open>Each step issues at most the call of its field\<close>

lemma thumbnail_step_issues:
  "issues (thumbnail_step env groupid values) (if file_present (thumbnail values) then [IMAGE] else [])"
  by (auto simp: issues_def thumbnail_step_def file_present_def thumbnail_failed_def
      split: option.splits list.splits promise.splits if_splits)

lemma icon_step_issues:
  "issues (icon_step env groupid values) (if file_present (icon values) then [ICON] else [])"
  by (auto simp: issues_def icon_step_def file_present_def icon_failed_def
      split: option.splits list.splits promise.splits if_splits)

lemma name_step_issues:
  "issues (name_step env groupid values) (if truthy (name values) then [NAME] else [])"
  by (auto simp: issues_def name_step_def truthy_def form_is_empty_toast_def
      split: option.splits promise.splits if_splits)

lemma description_step_issues:
  "issues (description_step env groupid values)
     (if truthy (description values) then [DESCRIPTION] else [])"
  by (auto simp: issues_def description_step_def truthy_def form_is_empty_toast_def
      split: option.splits promise.splits if_splits)

lemma jsondescription_step_issues:
  "issues (jsondescription_step env groupid values)
     (if truthy (jsondescription values) then [JSONDESCRIPTION] else [])"
  by (auto simp: issues_def jsondescription_step_def truthy_def form_is_empty_toast_def
      split: option.splits promise.splits if_splits)

lemma final_step_tags: "settings_tags (fst (final_step values)) = []"
  by (auto simp: final_step_def form_is_empty_toast_def group_data_updated_def
      split: sum.splits bool.splits)

lemma final_step_issues: "issues (final_step values) []"
  by (simp add: issues_def final_step_tags)

lemma mutationFn_issues:
  "issues (useGroupSettings_mutationFn env groupid values) (present_tags values)"
proof -
  have "issues (useGroupSettings_mutationFn env groupid values)
     ((if file_present (thumbnail values) then [IMAGE] else []) @
      (if file_present (icon values) then [ICON] else []) @
      (if truthy (name values) then [NAME] else []) @
      (if truthy (description values) then [DESCRIPTION] else []) @
      (if truthy (jsondescription values) then [JSONDESCRIPTION] else []) @ [])"
    unfolding useGroupSettings_mutationFn_def
    by (intro issues_then_do thumbnail_step_issues icon_step_issues name_step_issues
        description_step_issues jsondescription_step_issues final_step_issues)
  then show ?thesis by (simp add: present_tags_def)
qed

subsection \<open>A step that succeeds falls through, a step without its field does nothing\<close>

lemma thumbnail_step_succeeds:
  "file_step_succeeds env groupid IMAGE (thumbnail values) \<Longrightarrow>
   snd (thumbnail_step env groupid values) = Continue"
  by (auto simp: file_step_succeeds_def thumbnail_step_def update_succeeds_def
      split: option.splits list.splits promise.splits if_splits)

lemma icon_step_succeeds:
  "file_step_succeeds env groupid ICON (icon values) \<Longrightarrow>
   snd (icon_step env groupid values) = Continue"
  by (auto simp: file_step_succeeds_def icon_step_def update_succeeds_def
      split: option.splits list.splits promise.splits if_splits)

lemma name_step_succeeds:
  "text_step_succeeds env groupid NAME (name values) \<Longrightarrow>
   snd (name_step env groupid values) = Continue"
  by (auto simp: text_step_succeeds_def name_step_def update_succeeds_def
      split: option.splits promise.splits if_splits)

lemma description_step_succeeds:
  "text_step_succeeds env groupid DESCRIPTION (description values) \<Longrightarrow>
   snd (description_step env groupid values) = Continue"
  by (auto simp: text_step_succeeds_def description_step_def update_succeeds_def
      split: option.splits promise.splits if_splits)

lemma jsondescription_step_succeeds:
  "text_step_succeeds env groupid JSONDESCRIPTION (jsondescription values) \<Longrightarrow>
   snd (jsondescription_step env groupid values) = Continue"
  by (auto simp: text_step_succeeds_def jsondescription_step_def update_succeeds_def
      split: option.splits promise.splits if_splits)

lemma file_steps_skipped:
  "\<not> file_present (thumbnail values) \<Longrightarrow> thumbnail_step env groupid values = ([], Continue)"
  "\<not> file_present (icon values) \<Longrightarrow> icon_step env groupid values = ([], Continue)"
  by (auto simp: file_present_def thumbnail_step_def icon_step_def split: option.splits list.splits)

lemma text_steps_skipped:
  "\<not> truthy (name values) \<Longrightarrow> name_step env groupid values = ([], Continue)"
  "\<not> truthy (description values) \<Longrightarrow> description_step env groupid values = ([], Continue)"
  "\<not> truthy (jsondescription values) \<Longrightarrow>
     jsondescription_step env groupid values = ([], Continue)"
  by (auto simp: truthy_def name_step_def description_step_def jsondescription_step_def
      split: option.splits)

lemma mutationFn_all_succeed:
  assumes "all_steps_succeed env groupid values"
  shows "settings_tags (fst (useGroupSettings_mutationFn env groupid values)) = present_tags values"
proof -
  from assms have c:
    "snd (thumbnail_step env groupid values) = Continue"
    "snd (icon_step env groupid values) = Continue"
    "snd (name_step env groupid values) = Continue"
    "snd (description_step env groupid values) = Continue"
    "snd (jsondescription_step env groupid values) = Continue"
    by (simp_all add: all_steps_succeed_def thumbnail_step_succeeds icon_step_succeeds
        name_step_succeeds description_step_succeeds jsondescription_step_succeeds)
  have t:
    "settings_tags (fst (thumbnail_step env groupid values)) =
       (if file_present (thumbnail values) then [IMAGE] else [])"
    "settings_tags (fst (icon_step env groupid values)) =
       (if file_present (icon values) then [ICON] else [])"
    "settings_tags (fst (name_step env groupid values)) =
       (if truthy (name values) then [NAME] else [])"
    "settings_tags (fst (description_step env groupid values)) =
       (if truthy (description values) then [DESCRIPTION] else [])"
    "settings_tags (fst (jsondescription_step env groupid values)) =
       (if truthy (jsondescription values) then [JSONDESCRIPTION] else [])"
    using c
    by (simp_all only: issues_Continue [OF thumbnail_step_issues] issues_Continue [OF icon_step_issues]
        issues_Continue [OF name_step_issues] issues_Continue [OF description_step_issues]
        issues_Continue [OF jsondescription_step_issues])
  show ?thesis
    unfolding useGroupSettings_mutationFn_def present_tags_def
    by (simp only: then_do_Continue c fst_conv snd_conv settings_tags_append t final_step_tags
        append_Nil2)
qed

lemmas field_defs = performs_def field_calls_def field_passes_def uploaded_uuid_def
  file_present_def truthy_def update_succeeds_def

lemma thumbnail_step_performs: "performs (thumbnail_step env groupid values) env groupid values IMAGE"
  by (auto simp: field_defs thumbnail_step_def thumbnail_failed_def
      split: option.splits list.splits promise.splits)

lemma icon_step_performs: "performs (icon_step env groupid values) env groupid values ICON"
  by (auto simp: field_defs icon_step_def icon_failed_def
      split: option.splits list.splits promise.splits)

lemma name_step_performs: "performs (name_step env groupid values) env groupid values NAME"
  by (auto simp: field_defs name_step_def form_is_empty_toast_def
      split: option.splits promise.splits)

lemma description_step_performs:
  "performs (description_step env groupid values) env groupid values DESCRIPTION"
  by (auto simp: field_defs description_step_def form_is_empty_toast_def
      split: option.splits promise.splits)

lemma jsondescription_step_performs:
  "performs (jsondescription_step env groupid values) env groupid values JSONDESCRIPTION"
  by (auto simp: field_defs jsondescription_step_def form_is_empty_toast_def
      split: option.splits promise.splits)

lemma performs_then_do:
  assumes "performs a env groupid values tag"
    and "filter is_settings_call (fst b) = calls_until_failure env groupid values tags"
  shows "filter is_settings_call (fst (then_do a b)) =
    calls_until_failure env groupid values (tag # tags)"
  using assms by (cases "snd a") (auto simp: performs_def then_do_def)

lemma final_step_no_call: "filter is_settings_call (fst (final_step values)) = []"
  by (auto simp: final_step_def form_is_empty_toast_def group_data_updated_def
      split: sum.splits bool.splits)

lemma mutationFn_calls:
  "filter is_settings_call (fst (useGroupSettings_mutationFn env groupid values)) =
     calls_until_failure env groupid values [IMAGE, ICON, NAME, DESCRIPTION, JSONDESCRIPTION]"
  unfolding useGroupSettings_mutationFn_def
  by (intro performs_then_do thumbnail_step_performs icon_step_performs name_step_performs
      description_step_performs jsondescription_step_performs)
    (simp add: final_step_no_call)

lemma update_observed:
  "filter is_settings_call (fst (useGroupSettings_update env groupid values)) =
     filter is_settings_call (fst (useGroupSettings_mutationFn env groupid values))"
  "settings_tags (fst (useGroupSettings_update env groupid values)) =
     settings_tags (fst (useGroupSettings_mutationFn env groupid values))"
  by (auto simp: useGroupSettings_update_def settings_tags_append split: prod.splits flow.splits)

lemma update_only_name:
  assumes "only_name_set values" and "name values = Some n"
  shows "useGroupSettings_update env groupid values =
    (case onUpDateGroupSettings env groupid NAME n (settings_path groupid) of
       Rejects \<Rightarrow> ([UpDateGroupSettings groupid NAME n (settings_path groupid)], Throw Rejected)
     | Resolves updated \<Rightarrow>
         ([UpDateGroupSettings groupid NAME n (settings_path groupid),
           if status updated = 200 then group_data_updated else form_is_empty_toast,
           InvalidateQueries ''group-info''], Return))"
proof -
  from assms have s:
    "thumbnail_step env groupid values = ([], Continue)"
    "icon_step env groupid values = ([], Continue)"
    "description_step env groupid values = ([], Continue)"
    "jsondescription_step env groupid values = ([], Continue)"
    by (simp_all add: only_name_set_def file_steps_skipped text_steps_skipped)
  from assms have f: "final_step values = ([group_data_updated], Return)"
    by (auto simp: only_name_set_def final_step_def form_is_empty_def js_and_def truthy_def)
  from assms show ?thesis
    unfolding useGroupSettings_update_def useGroupSettings_mutationFn_def s f
    by (auto simp: then_do_def name_step_def only_name_set_def truthy_def split: promise.splits)
qed

subsection \<open>The update calls of a submission\<close>

text \<open>
  Claim C1, as amended. The \<^verbatim>\<open>onUpDateGroupSettings\<close> calls of a submission are
  exactly these: for each of thumbnail, icon, name, description, jsondescription that is
  present and non-empty, in this order, one call tagged \<open>IMAGE\<close>, \<open>ICON\<close>,
  \<open>NAME\<close>, \<open>DESCRIPTION\<close>, \<open>JSONDESCRIPTION\<close> respectively, with the value of
  the field and the settings path of the group, up to and including the first call that
  is not answered with status 200; a thumbnail or icon whose upload yields no uuid makes
  no call and ends the sequence as well. So the tags are always an initial segment of
  the tags of the fields present, and when every step succeeds they are exactly those
  tags, one call per field. A submission with only the name set makes one call, the
  \<open>NAME\<close> update, and no upload and no other update call: when the call is answered,
  one toast follows (success on status 200, the error otherwise) and then the
  invalidation of \<^verbatim>\<open>group-info\<close>; when it rejects, nothing follows.
\<close>

theorem update_calls_follow_present_fields:
  "filter is_settings_call (fst (useGroupSettings_update env groupid values)) =
     calls_until_failure env groupid values [IMAGE, ICON, NAME, DESCRIPTION, JSONDESCRIPTION] \<and>
   prefix (settings_tags (fst (useGroupSettings_update env groupid values))) (present_tags values) \<and>
   (all_steps_succeed env groupid values \<longrightarrow>
      settings_tags (fst (useGroupSettings_update env groupid values)) = present_tags values) \<and>
   (only_name_set values \<and> name values = Some n \<longrightarrow>
      useGroupSettings_update env groupid values =
        (case onUpDateGroupSettings env groupid NAME n (settings_path groupid) of
           Rejects \<Rightarrow> ([UpDateGroupSettings groupid NAME n (settings_path groupid)], Throw Rejected)
         | Resolves updated \<Rightarrow>
             ([UpDateGroupSettings groupid NAME n (settings_path groupid),
               if status updated = 200 then group_data_updated else form_is_empty_toast,
               InvalidateQueries ''group-info''], Return)))"
  using mutationFn_calls [of env groupid "values"] mutationFn_issues [of env groupid "values"]
    mutationFn_all_succeed [of env groupid "values"] update_only_name [of "values" n env groupid]
  by (simp add: issues_def update_observed)

theorem update_calls_follow_present_fields_witness:
  "filter is_settings_call (fst (useGroupSettings_update refusing_description ''g1'' name_and_description)) =
     [UpDateGroupSettings ''g1'' NAME ''Alpha'' ''/group/g1/settings'',
      UpDateGroupSettings ''g1'' DESCRIPTION ''About'' ''/group/g1/settings''] \<and>
   all_steps_succeed accepting ''g1'' all_fields \<and>
   filter is_settings_call (fst (useGroupSettings_update accepting ''g1'' all_fields)) =
     [UpDateGroupSettings ''g1'' IMAGE ''ux'' ''/group/g1/settings'',
      UpDateGroupSettings ''g1'' ICON ''uxx'' ''/group/g1/settings'',
      UpDateGroupSettings ''g1'' NAME ''Alpha'' ''/group/g1/settings'',
      UpDateGroupSettings ''g1'' DESCRIPTION ''About'' ''/group/g1/settings'',
      UpDateGroupSettings ''g1'' JSONDESCRIPTION ''{}'' ''/group/g1/settings''] \<and>
   settings_tags (fst (useGroupSettings_update accepting ''g1'' all_fields)) =
     [IMAGE, ICON, NAME, DESCRIPTION, JSONDESCRIPTION] \<and>
   only_name_set alpha_only \<and> name alpha_only = Some ''Alpha'' \<and>
   useGroupSettings_update accepting ''g1'' alpha_only =
     ([UpDateGroupSettings ''g1'' NAME ''Alpha'' ''/group/g1/settings'', group_data_updated,
       InvalidateQueries ''group-info''], Return)"
  using update_calls_follow_present_fields
      [of refusing_description "''g1''" name_and_description "''Alpha''"]
    update_calls_follow_present_fields [of accepting "''g1''" all_fields "''Alpha''"]
    update_calls_follow_present_fields [of accepting "''g1''" alpha_only "''Alpha''"]
  by (simp add: accepting_def refusing_description_def name_and_description_def all_fields_def
      alpha_only_def pred_defs truthy_def settings_path_def field_calls_def field_passes_def
      uploaded_uuid_def eval_nat_numeral)

text \<open>
  Claim C1 as stated fails: with a thumbnail and a name in the form and an upload that
  answers with nothing, the fields present are the thumbnail and the name, and no update
  call is made at all.
\<close>

theorem failed_upload_stops_update_calls:
  "present_tags thumbnail_and_name = [IMAGE, NAME] \<and>
   settings_tags (fst (useGroupSettings_update no_upload ''g1'' thumbnail_and_name)) = []"
  by (simp add: accepting_def no_upload_def thumbnail_and_name_def pred_defs step_defs
      useGroupSettings_update_def)

subsection \<open>A failure of the thumbnail or the icon\<close>

lemma thumbnail_step_fails:
  assumes "thumbnail values = Some (f # fs)"
    and "\<not> file_step_succeeds env groupid IMAGE (thumbnail values)"
  shows "snd (thumbnail_step env groupid values) = Return"
    and "filter is_toast (fst (thumbnail_step env groupid values)) = [thumbnail_failed]"
    and "uploads (fst (thumbnail_step env groupid values)) = [f]"
    and "set (settings_tags (fst (thumbnail_step env groupid values))) \<subseteq> {IMAGE}"
  using assms
  by (auto simp: thumbnail_step_def file_step_succeeds_def update_succeeds_def thumbnail_failed_def
      split: promise.splits option.splits if_splits)

lemma icon_step_fails:
  assumes "icon values = Some (f # fs)"
    and "\<not> file_step_succeeds env groupid ICON (icon values)"
  shows "snd (icon_step env groupid values) = Return"
    and "filter is_toast (fst (icon_step env groupid values)) = [icon_failed]"
    and "set (settings_tags (fst (icon_step env groupid values))) \<subseteq> {ICON}"
  using assms
  by (auto simp: icon_step_def file_step_succeeds_def update_succeeds_def icon_failed_def
      split: promise.splits option.splits if_splits)

lemma thumbnail_step_done:
  assumes "file_step_succeeds env groupid IMAGE (thumbnail values)"
  shows "snd (thumbnail_step env groupid values) = Continue"
    and "filter is_toast (fst (thumbnail_step env groupid values)) = []"
    and "set (settings_tags (fst (thumbnail_step env groupid values))) \<subseteq> {IMAGE}"
  using assms
  by (auto simp: thumbnail_step_def file_step_succeeds_def update_succeeds_def
      split: promise.splits option.splits list.splits if_splits)

text \<open>
  Claim C2, as amended. When the thumbnail step fails (the upload rejects, answers with
  nothing or without a uuid, or the update call rejects or answers with a status other
  than 200), the mutation returns there: the only toast is the thumbnail error, the only
  file uploaded is the thumbnail, and no update call other than the thumbnail's own is
  made. When the thumbnail step succeeds and the icon step fails, the mutation returns
  there: the only toast is the icon error and no update call for name, description or
  jsondescription is made.
\<close>

theorem file_step_failure_ends_mutation:
  "(thumbnail values = Some (f # fs) \<and>
    \<not> file_step_succeeds env groupid IMAGE (thumbnail values) \<longrightarrow>
      snd (useGroupSettings_mutationFn env groupid values) = Return \<and>
      filter is_toast (fst (useGroupSettings_mutationFn env groupid values)) = [thumbnail_failed] \<and>
      uploads (fst (useGroupSettings_mutationFn env groupid values)) = [f] \<and>
      set (settings_tags (fst (useGroupSettings_mutationFn env groupid values))) \<subseteq> {IMAGE}) \<and>
   (file_step_succeeds env groupid IMAGE (thumbnail values) \<and> icon values = Some (f # fs) \<and>
    \<not> file_step_succeeds env groupid ICON (icon values) \<longrightarrow>
      snd (useGroupSettings_mutationFn env groupid values) = Return \<and>
      filter is_toast (fst (useGroupSettings_mutationFn env groupid values)) = [icon_failed] \<and>
      set (settings_tags (fst (useGroupSettings_mutationFn env groupid values))) \<subseteq> {IMAGE, ICON})"
proof (intro conjI impI)
  assume a: "thumbnail values = Some (f # fs) \<and>
    \<not> file_step_succeeds env groupid IMAGE (thumbnail values)"
  then have a1: "thumbnail values = Some (f # fs)"
    and a2: "\<not> file_step_succeeds env groupid IMAGE (thumbnail values)"
    by blast+
  have "snd (thumbnail_step env groupid values) = Return"
    by (rule thumbnail_step_fails(1) [OF a1 a2])
  then have "useGroupSettings_mutationFn env groupid values = thumbnail_step env groupid values"
    unfolding useGroupSettings_mutationFn_def
    by (intro then_do_stops) simp
  then show "snd (useGroupSettings_mutationFn env groupid values) = Return"
    "filter is_toast (fst (useGroupSettings_mutationFn env groupid values)) = [thumbnail_failed]"
    "uploads (fst (useGroupSettings_mutationFn env groupid values)) = [f]"
    "set (settings_tags (fst (useGroupSettings_mutationFn env groupid values))) \<subseteq> {IMAGE}"
    by (simp_all only: thumbnail_step_fails [OF a1 a2])
next
  assume a: "file_step_succeeds env groupid IMAGE (thumbnail values) \<and>
    icon values = Some (f # fs) \<and> \<not> file_step_succeeds env groupid ICON (icon values)"
  then have a1: "file_step_succeeds env groupid IMAGE (thumbnail values)"
    and a2: "icon values = Some (f # fs)"
    and a3: "\<not> file_step_succeeds env groupid ICON (icon values)"
    by blast+
  note t = thumbnail_step_done [OF a1] and i = icon_step_fails [OF a2 a3]
  have "useGroupSettings_mutationFn env groupid values =
      (fst (thumbnail_step env groupid values) @ fst (icon_step env groupid values), Return)"
    unfolding useGroupSettings_mutationFn_def
    by (simp add: then_do_def t(1) i(1))
  then show "snd (useGroupSettings_mutationFn env groupid values) = Return"
    "filter is_toast (fst (useGroupSettings_mutationFn env groupid values)) = [icon_failed]"
    "set (settings_tags (fst (useGroupSettings_mutationFn env groupid values))) \<subseteq> {IMAGE, ICON}"
    using t(3) i(3) by (auto simp: t(2) i(2) settings_tags_append)
qed

theorem file_step_failure_ends_mutation_witness:
  "thumbnail thumbnail_and_name = Some [1] \<and>
   \<not> file_step_succeeds no_upload ''g1'' IMAGE (thumbnail thumbnail_and_name) \<and>
   snd (useGroupSettings_mutationFn no_upload ''g1'' thumbnail_and_name) = Return \<and>
   filter is_toast (fst (useGroupSettings_mutationFn no_upload ''g1'' thumbnail_and_name)) =
     [thumbnail_failed] \<and>
   uploads (fst (useGroupSettings_mutationFn no_upload ''g1'' thumbnail_and_name)) = [1] \<and>
   file_step_succeeds refusing_icon ''g1'' IMAGE (thumbnail all_fields) \<and>
   icon all_fields = Some [2] \<and>
   \<not> file_step_succeeds refusing_icon ''g1'' ICON (icon all_fields) \<and>
   filter is_toast (fst (useGroupSettings_mutationFn refusing_icon ''g1'' all_fields)) =
     [icon_failed] \<and>
   set (settings_tags (fst (useGroupSettings_mutationFn refusing_icon ''g1'' all_fields))) \<subseteq>
     {IMAGE, ICON}"
  using file_step_failure_ends_mutation [of thumbnail_and_name 1 "[]" no_upload "''g1''"]
    file_step_failure_ends_mutation [of all_fields 2 "[]" refusing_icon "''g1''"]
  by (simp add: accepting_def no_upload_def refusing_icon_def thumbnail_and_name_def all_fields_def
      pred_defs)

text \<open>
  Claim C2 as stated fails: with a thumbnail and a name in the form and an upload that
  answers with nothing, the mutation uploads the thumbnail, shows the thumbnail error and
  ends; the name, though present, gets no update call.
\<close>

theorem failed_thumbnail_skips_later_fields:
  "file_present (thumbnail thumbnail_and_name) \<and> truthy (name thumbnail_and_name) \<and>
   uploadFile no_upload 1 = Resolves None \<and>
   fst (useGroupSettings_mutationFn no_upload ''g1'' thumbnail_and_name) =
     [UploadFile 1, thumbnail_failed]"
  by (simp add: accepting_def no_upload_def thumbnail_and_name_def pred_defs step_defs)

subsection \<open>The empty form\<close>

text \<open>
  Claim C3 at the submission whose five fields are all undefined: the mutation makes no
  call, shows no toast and throws a \<^verbatim>\<open>TypeError\<close>, where the claim expects the
  empty-form toast.
\<close>

theorem empty_form_check_throws_on_undefined_files:
  "useGroupSettings_mutationFn env groupid
     \<lparr>thumbnail = None, icon = None, name = None, description = None, jsondescription = None\<rparr> =
   ([], Throw TypeError)"
  by (simp add: step_defs)

lemma final_step_without_text:
  assumes "\<not> truthy (name values)" "\<not> truthy (description values)"
    "\<not> truthy (jsondescription values)"
  shows "final_step values =
    (case thumbnail values of
       None \<Rightarrow> ([], Throw TypeError)
     | Some [] \<Rightarrow>
         (case icon values of
            None \<Rightarrow> ([], Throw TypeError)
          | Some [] \<Rightarrow> ([form_is_empty_toast], Return)
          | Some (i # is) \<Rightarrow> ([group_data_updated], Return))
     | Some (t # ts) \<Rightarrow> ([group_data_updated], Return))"
  using assms
  by (simp add: final_step_def form_is_empty_def js_and_def not_length_def
      split: option.splits list.splits)

lemma file_steps_no_empty_form_toast:
  "form_is_empty_toast \<notin> set (fst (thumbnail_step env groupid values))"
  "form_is_empty_toast \<notin> set (fst (icon_step env groupid values))"
  by (auto simp: thumbnail_step_def icon_step_def thumbnail_failed_def icon_failed_def
      form_is_empty_toast_def split: option.splits list.splits promise.splits)

lemma success_is_not_empty_form:
  "group_data_updated \<noteq> form_is_empty_toast" "form_is_empty_toast \<noteq> group_data_updated"
  by (simp_all add: group_data_updated_def form_is_empty_toast_def)

lemma file_step_present_Continue:
  "thumbnail values = Some [] \<Longrightarrow> snd (thumbnail_step env groupid values) = Continue"
  "icon values = Some [] \<Longrightarrow> snd (icon_step env groupid values) = Continue"
  by (simp_all add: thumbnail_step_def icon_step_def)

lemma icon_step_done:
  assumes "file_step_succeeds env groupid ICON (icon values)"
  shows "snd (icon_step env groupid values) = Continue"
    and "filter is_toast (fst (icon_step env groupid values)) = []"
  using assms
  by (auto simp: icon_step_def file_step_succeeds_def update_succeeds_def
      split: promise.splits option.splits list.splits if_splits)

lemma file_present_cases: "file_present files \<Longrightarrow> \<exists>f fs. files = Some (f # fs)"
  by (auto simp: file_present_def split: option.splits list.splits)

lemma absent_file_step_succeeds:
  "\<not> file_present files \<Longrightarrow> file_step_succeeds env groupid tag files"
  by (auto simp: file_present_def file_step_succeeds_def split: option.splits list.splits)

lemma final_step_toasts:
  assumes "\<not> truthy (name values)" "\<not> truthy (description values)"
    "\<not> truthy (jsondescription values)"
  shows "(filter is_toast (fst (final_step values)), snd (final_step values)) =
    (if thumbnail values = None \<or> thumbnail values = Some [] \<and> icon values = None
       then ([], Throw TypeError)
     else if thumbnail values = Some [] \<and> icon values = Some []
       then ([form_is_empty_toast], Return)
     else ([group_data_updated], Return))"
  by (simp add: final_step_without_text [OF assms] form_is_empty_toast_def group_data_updated_def
      split: option.splits list.splits)

lemma mutationFn_without_text:
  assumes "\<not> truthy (name values)" "\<not> truthy (description values)"
    "\<not> truthy (jsondescription values)"
  shows "useGroupSettings_mutationFn env groupid values =
      then_do (thumbnail_step env groupid values)
        (then_do (icon_step env groupid values) (final_step values))"
  by (simp only: useGroupSettings_mutationFn_def text_steps_skipped(1) [OF assms(1)]
      text_steps_skipped(2) [OF assms(2)] text_steps_skipped(3) [OF assms(3)] then_do_nothing)

lemma outcome_without_text:
  assumes a: "\<not> truthy (name values)" "\<not> truthy (description values)"
    "\<not> truthy (jsondescription values)"
  shows "(filter is_toast (fst (useGroupSettings_mutationFn env groupid values)),
       snd (useGroupSettings_mutationFn env groupid values)) =
        (if file_step_fails env groupid IMAGE (thumbnail values) then ([thumbnail_failed], Return)
         else if file_step_fails env groupid ICON (icon values) then ([icon_failed], Return)
         else if thumbnail values = None \<or> thumbnail values = Some [] \<and> icon values = None
           then ([], Throw TypeError)
         else if thumbnail values = Some [] \<and> icon values = Some []
           then ([form_is_empty_toast], Return)
         else ([group_data_updated], Return))"
proof (cases "file_step_fails env groupid IMAGE (thumbnail values)")
  case True
  then obtain f fs where t: "thumbnail values = Some (f # fs)"
    and n: "\<not> file_step_succeeds env groupid IMAGE (thumbnail values)"
    using file_present_cases [of "thumbnail values"] by (auto simp: file_step_fails_def)
  note fails = thumbnail_step_fails [OF t n]
  have "useGroupSettings_mutationFn env groupid values = thumbnail_step env groupid values"
    unfolding mutationFn_without_text [OF a] by (intro then_do_stops) (simp add: fails(1))
  with True show ?thesis by (simp add: fails)
next
  case False
  then have ts: "file_step_succeeds env groupid IMAGE (thumbnail values)"
    using absent_file_step_succeeds [of "thumbnail values" env groupid IMAGE]
    by (auto simp: file_step_fails_def)
  note t = thumbnail_step_done [OF ts]
  show ?thesis
  proof (cases "file_step_fails env groupid ICON (icon values)")
    case True
    then obtain f fs where i: "icon values = Some (f # fs)"
      and n: "\<not> file_step_succeeds env groupid ICON (icon values)"
      using file_present_cases [of "icon values"] by (auto simp: file_step_fails_def)
    note fails = icon_step_fails [OF i n]
    have "useGroupSettings_mutationFn env groupid values =
        (fst (thumbnail_step env groupid values) @ fst (icon_step env groupid values), Return)"
      unfolding mutationFn_without_text [OF a] by (simp add: then_do_def t(1) fails(1))
    with True \<open>\<not> file_step_fails env groupid IMAGE (thumbnail values)\<close> show ?thesis
      by (simp add: t(2) fails(2))
  next
    case False
    then have "file_step_succeeds env groupid ICON (icon values)"
      using absent_file_step_succeeds [of "icon values" env groupid ICON]
      by (auto simp: file_step_fails_def)
    note i = icon_step_done [OF this]
    have "useGroupSettings_mutationFn env groupid values =
        (fst (thumbnail_step env groupid values) @ fst (icon_step env groupid values) @
           fst (final_step values), snd (final_step values))"
      unfolding mutationFn_without_text [OF a] by (simp add: then_do_def t(1) i(1))
    then have "(filter is_toast (fst (useGroupSettings_mutationFn env groupid values)),
        snd (useGroupSettings_mutationFn env groupid values)) =
        (filter is_toast (fst (final_step values)), snd (final_step values))"
      by (simp add: t(2) i(2))
    with False \<open>\<not> file_step_fails env groupid IMAGE (thumbnail values)\<close> show ?thesis
      by (simp only: final_step_toasts [OF a] if_False)
  qed
qed

lemma throws_without_text:
  assumes a: "\<not> truthy (name values)" "\<not> truthy (description values)"
    "\<not> truthy (jsondescription values)"
  shows "snd (useGroupSettings_mutationFn env groupid values) = Throw TypeError \<longleftrightarrow>
     thumbnail values = None \<and> file_step_succeeds env groupid ICON (icon values) \<or>
     thumbnail values = Some [] \<and> icon values = None"
proof -
  have "snd (useGroupSettings_mutationFn env groupid values) =
    snd (filter is_toast (fst (useGroupSettings_mutationFn env groupid values)),
         snd (useGroupSettings_mutationFn env groupid values))"
    by simp
  also have "\<dots> = Throw TypeError \<longleftrightarrow>
       thumbnail values = None \<and> file_step_succeeds env groupid ICON (icon values) \<or>
       thumbnail values = Some [] \<and> icon values = None"
    unfolding outcome_without_text [OF a]
    by (auto simp: file_step_fails_def file_present_def file_step_succeeds_def
        split: option.splits list.splits)
  finally show ?thesis .
qed

lemma calls_before_throw:
  assumes a: "\<not> truthy (name values)" "\<not> truthy (description values)"
    "\<not> truthy (jsondescription values)"
    and thrown: "snd (useGroupSettings_mutationFn env groupid values) = Throw TypeError"
  shows "settings_tags (fst (useGroupSettings_mutationFn env groupid values)) =
    (if file_present (icon values) then [ICON] else [])"
proof -
  from thrown throws_without_text [OF a, of env groupid]
  have tn: "\<not> file_present (thumbnail values)"
    and ok: "file_step_succeeds env groupid ICON (icon values)"
    by (auto simp: file_present_def file_step_succeeds_def)
  note i = icon_step_succeeds [OF ok]
  have "useGroupSettings_mutationFn env groupid values =
      (fst (icon_step env groupid values) @ fst (final_step values), snd (final_step values))"
    unfolding mutationFn_without_text [OF a] file_steps_skipped(1) [OF tn] then_do_nothing
    by (simp add: then_do_def i)
  then show ?thesis
    by (simp add: settings_tags_append issues_Continue [OF icon_step_issues i] final_step_tags)
qed

text \<open>
  Claim C9, as amended. For every submission without name, description and
  jsondescription: the empty-form toast is shown if and only if thumbnail and icon are
  both defined, empty file lists. The mutation throws a \<^verbatim>\<open>TypeError\<close>, without any
  toast, exactly when thumbnail is undefined and the icon step has not failed (the icon
  is undefined, empty, or uploaded and committed, and then the throw comes after the
  icon's update call), or thumbnail is a defined empty list and icon is undefined. The
  check reads the lengths from left to right and stops at the first that is not zero:
  with a thumbnail chosen and stored, the mutation ends with the success toast whatever
  the icon is, undefined included. A thumbnail or icon step that fails ends the mutation
  with that field's error before the check is reached.
\<close>

theorem empty_form_outcomes:
  "(\<not> truthy (name values) \<and> \<not> truthy (description values) \<and> \<not> truthy (jsondescription values) \<longrightarrow>
      (form_is_empty_toast \<in> set (fst (useGroupSettings_mutationFn env groupid values)) \<longleftrightarrow>
         thumbnail values = Some [] \<and> icon values = Some []) \<and>
      (snd (useGroupSettings_mutationFn env groupid values) = Throw TypeError \<longleftrightarrow>
         thumbnail values = None \<and> file_step_succeeds env groupid ICON (icon values) \<or>
         thumbnail values = Some [] \<and> icon values = None) \<and>
      (filter is_toast (fst (useGroupSettings_mutationFn env groupid values)),
       snd (useGroupSettings_mutationFn env groupid values)) =
        (if file_step_fails env groupid IMAGE (thumbnail values) then ([thumbnail_failed], Return)
         else if file_step_fails env groupid ICON (icon values) then ([icon_failed], Return)
         else if thumbnail values = None \<or> thumbnail values = Some [] \<and> icon values = None
           then ([], Throw TypeError)
         else if thumbnail values = Some [] \<and> icon values = Some []
           then ([form_is_empty_toast], Return)
         else ([group_data_updated], Return))) \<and>
   (\<not> truthy (name values) \<and> \<not> truthy (description values) \<and> \<not> truthy (jsondescription values) \<and>
    snd (useGroupSettings_mutationFn env groupid values) = Throw TypeError \<longrightarrow>
      settings_tags (fst (useGroupSettings_mutationFn env groupid values)) =
        (if file_present (icon values) then [ICON] else [])) \<and>
   (nothing_set values \<and> thumbnail values \<noteq> None \<and> icon values \<noteq> None \<longrightarrow>
      useGroupSettings_mutationFn env groupid values = ([form_is_empty_toast], Return)) \<and>
   (nothing_set values \<and> (thumbnail values = None \<or> icon values = None) \<longrightarrow>
      useGroupSettings_mutationFn env groupid values = ([], Throw TypeError))"
proof (intro conjI impI)
  assume "\<not> truthy (name values) \<and> \<not> truthy (description values) \<and>
    \<not> truthy (jsondescription values)"
  then have a: "\<not> truthy (name values)" "\<not> truthy (description values)"
    "\<not> truthy (jsondescription values)"
    by blast+
  have f: "form_is_empty_toast \<in> set (fst (final_step values)) \<longleftrightarrow>
      thumbnail values = Some [] \<and> icon values = Some []"
    by (simp add: final_step_without_text [OF a] success_is_not_empty_form
        split: option.splits list.splits)
  show "form_is_empty_toast \<in> set (fst (useGroupSettings_mutationFn env groupid values)) \<longleftrightarrow>
    thumbnail values = Some [] \<and> icon values = Some []"
    unfolding mutationFn_without_text [OF a]
    by (auto simp: set_fst_then_do file_steps_no_empty_form_toast f file_step_present_Continue)
  show "snd (useGroupSettings_mutationFn env groupid values) = Throw TypeError \<longleftrightarrow>
         thumbnail values = None \<and> file_step_succeeds env groupid ICON (icon values) \<or>
         thumbnail values = Some [] \<and> icon values = None"
    by (rule throws_without_text [OF a])
  show "(filter is_toast (fst (useGroupSettings_mutationFn env groupid values)),
       snd (useGroupSettings_mutationFn env groupid values)) =
        (if file_step_fails env groupid IMAGE (thumbnail values) then ([thumbnail_failed], Return)
         else if file_step_fails env groupid ICON (icon values) then ([icon_failed], Return)
         else if thumbnail values = None \<or> thumbnail values = Some [] \<and> icon values = None
           then ([], Throw TypeError)
         else if thumbnail values = Some [] \<and> icon values = Some []
           then ([form_is_empty_toast], Return)
         else ([group_data_updated], Return))"
    by (rule outcome_without_text [OF a])
next
  assume "\<not> truthy (name values) \<and> \<not> truthy (description values) \<and>
    \<not> truthy (jsondescription values) \<and>
    snd (useGroupSettings_mutationFn env groupid values) = Throw TypeError"
  then have a: "\<not> truthy (name values)" "\<not> truthy (description values)"
    "\<not> truthy (jsondescription values)"
    and thrown: "snd (useGroupSettings_mutationFn env groupid values) = Throw TypeError"
    by blast+
  show "settings_tags (fst (useGroupSettings_mutationFn env groupid values)) =
        (if file_present (icon values) then [ICON] else [])"
    by (rule calls_before_throw [OF a thrown])
next
  assume "nothing_set values \<and> thumbnail values \<noteq> None \<and> icon values \<noteq> None"
  then have a: "\<not> truthy (name values)" "\<not> truthy (description values)"
    "\<not> truthy (jsondescription values)"
    and n: "\<not> file_present (thumbnail values)" "\<not> file_present (icon values)"
    and d: "thumbnail values = Some []" "icon values = Some []"
    by (auto simp: nothing_set_def file_present_def split: option.splits list.splits)
  have "useGroupSettings_mutationFn env groupid values = final_step values"
    by (simp only: useGroupSettings_mutationFn_def text_steps_skipped(1) [OF a(1)]
        text_steps_skipped(2) [OF a(2)] text_steps_skipped(3) [OF a(3)]
        file_steps_skipped(1) [OF n(1)] file_steps_skipped(2) [OF n(2)] then_do_nothing)
  then show "useGroupSettings_mutationFn env groupid values = ([form_is_empty_toast], Return)"
    by (simp add: final_step_without_text [OF a] d)
next
  assume "nothing_set values \<and> (thumbnail values = None \<or> icon values = None)"
  then have a: "\<not> truthy (name values)" "\<not> truthy (description values)"
    "\<not> truthy (jsondescription values)"
    and n: "\<not> file_present (thumbnail values)" "\<not> file_present (icon values)"
    and d: "thumbnail values = None \<or> thumbnail values = Some [] \<and> icon values = None"
    by (auto simp: nothing_set_def file_present_def split: option.splits list.splits)
  have "useGroupSettings_mutationFn env groupid values = final_step values"
    by (simp only: useGroupSettings_mutationFn_def text_steps_skipped(1) [OF a(1)]
        text_steps_skipped(2) [OF a(2)] text_steps_skipped(3) [OF a(3)]
        file_steps_skipped(1) [OF n(1)] file_steps_skipped(2) [OF n(2)] then_do_nothing)
  with d show "useGroupSettings_mutationFn env groupid values = ([], Throw TypeError)"
    by (auto simp: final_step_without_text [OF a])
qed
theorem empty_form_outcomes_witness:
  "nothing_set no_files_chosen \<and> thumbnail no_files_chosen \<noteq> None \<and> icon no_files_chosen \<noteq> None \<and>
   useGroupSettings_mutationFn accepting ''g1'' no_files_chosen = ([form_is_empty_toast], Return) \<and>
   nothing_set untouched \<and> thumbnail untouched = None \<and>
   useGroupSettings_mutationFn accepting ''g1'' untouched = ([], Throw TypeError) \<and>
   form_is_empty_toast \<notin> set (fst (useGroupSettings_mutationFn accepting ''g1'' untouched)) \<and>
   thumbnail icon_without_thumbnail = None \<and>
   file_step_succeeds accepting ''g1'' ICON (icon icon_without_thumbnail) \<and>
   snd (useGroupSettings_mutationFn accepting ''g1'' icon_without_thumbnail) = Throw TypeError \<and>
   settings_tags (fst (useGroupSettings_mutationFn accepting ''g1'' icon_without_thumbnail)) =
     [ICON] \<and>
   filter is_toast (fst (useGroupSettings_mutationFn accepting ''g1'' icon_without_thumbnail)) = [] \<and>
   icon thumbnail_without_icon = None \<and>
   filter is_toast (fst (useGroupSettings_mutationFn accepting ''g1'' thumbnail_without_icon)) =
     [group_data_updated] \<and>
   snd (useGroupSettings_mutationFn accepting ''g1'' thumbnail_without_icon) = Return"
  using empty_form_outcomes [of no_files_chosen accepting "''g1''"]
    empty_form_outcomes [of untouched accepting "''g1''"]
    empty_form_outcomes [of icon_without_thumbnail accepting "''g1''"]
    empty_form_outcomes [of thumbnail_without_icon accepting "''g1''"]
  by (simp add: accepting_def no_files_chosen_def untouched_def icon_without_thumbnail_def
      thumbnail_without_icon_def pred_defs truthy_def file_step_fails_def)

text \<open>
  Claim C9 as stated fails: with a thumbnail chosen, no name, description or
  jsondescription, and the icon undefined, the mutation does not throw; the check stops
  at the thumbnail's length and the mutation ends with the success toast.
\<close>

theorem undefined_icon_after_thumbnail_does_not_throw:
  "name thumbnail_without_icon = None \<and> description thumbnail_without_icon = None \<and>
   jsondescription thumbnail_without_icon = None \<and> icon thumbnail_without_icon = None \<and>
   useGroupSettings_mutationFn accepting ''g1'' thumbnail_without_icon =
     ([UploadFile 1, UpDateGroupSettings ''g1'' IMAGE ''ux'' ''/group/g1/settings'',
       group_data_updated], Return)"
  by (simp add: accepting_def thumbnail_without_icon_def step_defs)

subsection \<open>The redirect\<close>

text \<open>
  Claim C8, as amended. \<^verbatim>\<open>useGroupSettings\<close> pushes \<^verbatim>\<open>/group/create\<close> exactly
  when the query holds no data yet or the data's status is not 200; with data of status
  200 it pushes nothing.
\<close>

theorem settings_redirect_unless_status_200:
  "(RouterPush ''/group/create'' \<in> set (useGroupSettings_redirect data :: 'f event list) \<longleftrightarrow>
      (case data of None \<Rightarrow> True | Some d \<Rightarrow> status d \<noteq> 200)) \<and>
   (useGroupSettings_redirect data :: 'f event list) =
     (case data of
        None \<Rightarrow> [RouterPush ''/group/create'']
      | Some d \<Rightarrow> if status d = 200 then [] else [RouterPush ''/group/create''])"
  by (simp add: useGroupSettings_redirect_def split: option.splits)

text \<open>
  Claim C8 as stated fails: before the fetch has returned anything the query data is
  undefined, and the hook redirects.
\<close>

theorem settings_redirect_before_fetch_returns:
  "useGroupSettings_redirect (None :: unit group_result option) =
     [RouterPush ''/group/create'' :: nat event]"
  by (simp add: useGroupSettings_redirect_def)

section \<open>Properties of \<^verbatim>\<open>useGroupInfo\<close>\<close>

text \<open>
  Claim C10. Without cached data the hook pushes \<^verbatim>\<open>/explore\<close> and then throws a
  \<^verbatim>\<open>TypeError\<close> at the destructuring; it returns no group. With cached data it
  returns the group, after a push when the status is not 200.
\<close>

theorem useGroupInfo_throws_without_cached_data:
  "(useGroupInfo (None :: 'g group_result option) :: 'f event list \<times> (error + 'g)) =
     ([RouterPush ''/explore''], Inl TypeError) \<and>
   (useGroupInfo (Some d) :: 'f event list \<times> (error + 'g)) =
     (if status d \<noteq> 200 then [RouterPush ''/explore''] else [], Inr (group d))"
  by (simp add: useGroupInfo_def)

section \<open>Properties of the add-domain mutation\<close>

text \<open>
  Claim C6. A success toast is shown if and only if the mutation resolves with status
  200; a result with another status gives an error toast; either toast carries the
  result's message; a rejected mutation gives no toast. In every case the
  \<^verbatim>\<open>domain-config\<close> query is invalidated exactly once, as the last thing that happens.
\<close>

theorem add_domain_toast_and_invalidation:
  "(filter is_success_toast (fst (useCustomDomain_mutate env groupid domain)) \<noteq> [] \<longleftrightarrow>
      (\<exists>data. onAddCustomDomain env groupid domain = Resolves data \<and> status data = 200)) \<and>
   (onAddCustomDomain env groupid domain = Resolves data \<and> status data = 200 \<longrightarrow>
      filter is_toast (fst (useCustomDomain_mutate env groupid domain)) =
        [Toast ''Success'' (Some (message data))]) \<and>
   (onAddCustomDomain env groupid domain = Resolves data \<and> status data \<noteq> 200 \<longrightarrow>
      filter is_toast (fst (useCustomDomain_mutate env groupid domain)) =
        [Toast ''Error'' (Some (message data))]) \<and>
   (onAddCustomDomain env groupid domain = Rejects \<longrightarrow>
      filter is_toast (fst (useCustomDomain_mutate env groupid domain)) = []) \<and>
   filter is_invalidation (fst (useCustomDomain_mutate env groupid domain)) =
     [InvalidateQueries ''domain-config''] \<and>
   last (fst (useCustomDomain_mutate env groupid domain)) = InvalidateQueries ''domain-config''"
  by (auto simp: useCustomDomain_mutate_def split: promise.splits)

theorem add_domain_toast_and_invalidation_witness:
  "onAddCustomDomain accepting ''g1'' ''a.example'' = Resolves \<lparr>status = 200, message = ''ok''\<rparr> \<and>
   fst (useCustomDomain_mutate accepting ''g1'' ''a.example'') =
     [FormReset, AddCustomDomain ''g1'' ''a.example'', Toast ''Success'' (Some ''ok''),
      InvalidateQueries ''domain-config''] \<and>
   onAddCustomDomain domain_taken ''g1'' ''a.example'' =
     Resolves \<lparr>status = 400, message = ''taken''\<rparr> \<and>
   filter is_toast (fst (useCustomDomain_mutate domain_taken ''g1'' ''a.example'')) =
     [Toast ''Error'' (Some ''taken'')] \<and>
   filter is_invalidation (fst (useCustomDomain_mutate domain_taken ''g1'' ''a.example'')) =
     [InvalidateQueries ''domain-config''] \<and>
   onAddCustomDomain domain_unreachable ''g1'' ''a.example'' = Rejects \<and>
   filter is_toast (fst (useCustomDomain_mutate domain_unreachable ''g1'' ''a.example'')) = [] \<and>
   filter is_invalidation (fst (useCustomDomain_mutate domain_unreachable ''g1'' ''a.example'')) =
     [InvalidateQueries ''domain-config'']"
  using add_domain_toast_and_invalidation
      [of accepting "''g1''" "''a.example''" "\<lparr>status = 200, message = ''ok''\<rparr>"]
    add_domain_toast_and_invalidation
      [of domain_taken "''g1''" "''a.example''" "\<lparr>status = 400, message = ''taken''\<rparr>"]
    add_domain_toast_and_invalidation
      [of domain_unreachable "''g1''" "''a.example''" "\<lparr>status = 0, message = []\<rparr>"]
  by (simp add: accepting_def domain_taken_def domain_unreachable_def useCustomDomain_mutate_def)

section \<open>Properties of the presence tracker\<close>

lemma sync_handler_all_first:
  "\<forall>entry \<in> set state. snd entry \<noteq> [] \<Longrightarrow>
   (sync_handler state :: 'f block) = (map announces state, Return)"
proof (induction state rule: sync_handler.induct)
  case 1
  then show ?case by simp
next
  case (2 user state)
  then show ?case by simp
next
  case (3 user first others state)
  then show ?case by (simp add: announces_def)
qed

text \<open>
  Claim C7. On a sync event over a snapshot in which every key has a first payload, the
  handler dispatches, for every key of the snapshot in turn, the user id of that key's
  first payload as online; it depends on nothing but the snapshot. On the status
  \<^verbatim>\<open>SUBSCRIBED\<close> the hook tracks \<^verbatim>\<open>{member: {userid}}\<close> on the channel
  \<^verbatim>\<open>tracking\<close>, and on any other status nothing.
\<close>

theorem presence_sync_announces_every_key:
  "((\<forall>entry \<in> set state. snd entry \<noteq> []) \<longrightarrow>
      (sync_handler state :: 'f block) = (map announces state, Return)) \<and>
   (subscribe_callback uid ''SUBSCRIBED'' :: 'f event list) =
     [Track ''tracking'' \<lparr>member_payload = \<lparr>userid = uid\<rparr>\<rparr>] \<and>
   (channel_status \<noteq> ''SUBSCRIBED'' \<longrightarrow>
      (subscribe_callback uid channel_status :: 'f event list) = [])"
  using sync_handler_all_first [of state, where ?'f = 'f]
  by (simp add: subscribe_callback_def)

theorem presence_sync_announces_every_key_witness:
  "[] \<notin> set (map snd two_clients) \<and>
   sync_handler two_clients =
     ([Dispatch (OnOnline [''ann'']), Dispatch (OnOnline [''bob''])] :: nat event list, Return) \<and>
   subscribe_callback ''ann'' ''CLOSED'' = ([] :: nat event list)"
  using presence_sync_announces_every_key [of two_clients "''ann''" "''CLOSED''", where ?'f = nat]
  by (simp add: two_clients_def announces_def)

section \<open>Properties of the gallery mutation\<close>

















section \<open>Properties of the search debounce\<close>

lemma advance_not_due:
  "timer s = Some (due, q) \<Longrightarrow> now < due \<Longrightarrow> advance search now s = ([], s)"
  by (simp add: advance_def)

lemma advance_idle:
  "idle s \<Longrightarrow>
   \<exists>s0. (advance search now s :: 'f event list \<times> search_state) = ([], s0) \<and>
     query s0 = query s \<and> debounce s0 = debounce s"
  by (auto simp: idle_def advance_def timer_fires_def split: option.splits)

lemma input_changes_spaced:
  assumes "timer s = Some (t + 1000, query s)" and "spaced t (query s) changes"
  shows "(input_changes search changes s :: 'f event list \<times> search_state) =
    ([], s\<lparr>query := snd (last ((t, query s) # changes)),
           timer := Some (fst (last ((t, query s) # changes)) + 1000,
                          snd (last ((t, query s) # changes)))\<rparr>)"
  using assms
proof (induction changes arbitrary: s t)
  case Nil
  then show ?case by simp
next
  case (Cons change changes)
  define s' where "s' = s\<lparr>query := snd change, timer := Some (fst change + 1000, snd change)\<rparr>"
  from Cons.prems have step:
    "(onSearchQuery search change s :: 'f event list \<times> search_state) = ([], s')"
    by (simp add: onSearchQuery_def advance_not_due s'_def)
  have "timer s' = Some (fst change + 1000, query s')" "spaced (fst change) (query s') changes"
    using Cons.prems by (simp_all add: s'_def)
  from Cons.IH [OF this] show ?case
    by (simp add: step s'_def)
qed

lemma first_change:
  assumes "idle s" and "v \<noteq> query s"
  shows "\<exists>s'. (onSearchQuery search (t, v) s :: 'f event list \<times> search_state) = ([], s') \<and>
    timer s' = Some (t + 1000, v) \<and> query s' = v \<and> debounce s' = debounce s"
proof -
  from advance_idle [OF assms(1), of search t, where ?'f = 'f] obtain s0 where
    "(advance search t s :: 'f event list \<times> search_state) = ([], s0)"
    "query s0 = query s" "debounce s0 = debounce s"
    by blast
  with assms(2) show ?thesis
    by (simp add: onSearchQuery_def)
qed

text \<open>
  Claim C5, as amended. Start from a state in which no pending timeout would change
  \<^verbatim>\<open>debounce\<close>, and let the input change to \<open>v\<close> and then go through further
  changes, each less than 1000 ms after the one before it and each to a new value. Then
  nothing fires while the changes last. After the last change \<^verbatim>\<open>debounce\<close> becomes
  the last value \<open>w\<close>, and what fires then depends on \<open>w\<close>: nothing when \<open>w\<close> is
  the value \<^verbatim>\<open>debounce\<close> had before; the clearing of the results and no network
  call when \<open>w\<close> is empty; otherwise exactly one \<^verbatim>\<open>refetch\<close>, for \<open>w\<close>, which
  calls \<^verbatim>\<open>onSearchGroups\<close> when the search is for groups. A timeout that carries
  the empty string into a non-empty \<^verbatim>\<open>debounce\<close> clears the results and calls
  nothing.
\<close>

theorem burst_ends_in_one_debounced_update:
  "(idle s \<and> v \<noteq> query s \<and> spaced t v changes \<longrightarrow>
     (fst (input_changes search ((t, v) # changes) s) :: 'f event list) = [] \<and>
     (changes_then_quiet search ((t, v) # changes) s :: 'f event list \<times> search_state) =
       ((let w = snd (last ((t, v) # changes)) in
         if w = debounce s then []
         else if w = [] then [Dispatch OnClearSearch]
         else Refetch w # (if search = GROUPS then [SearchGroups search w] else [])),
        \<lparr>query = snd (last ((t, v) # changes)), debounce = snd (last ((t, v) # changes)),
         timer = None\<rparr>)) \<and>
   (timer s = Some (due, []) \<and> debounce s \<noteq> [] \<longrightarrow>
     (timer_fires search s :: 'f event list \<times> search_state) =
       ([Dispatch OnClearSearch], s\<lparr>debounce := [], timer := None\<rparr>))"
proof (intro conjI impI)
  assume "idle s \<and> v \<noteq> query s \<and> spaced t v changes"
  then have i: "idle s" and n: "v \<noteq> query s" and sp: "spaced t v changes"
    by blast+
  from first_change [OF i n, of search t, where ?'f = 'f] obtain s' where
    s': "(onSearchQuery search (t, v) s :: 'f event list \<times> search_state) = ([], s')"
    "timer s' = Some (t + 1000, v)" "query s' = v" "debounce s' = debounce s"
    by blast
  have "timer s' = Some (t + 1000, query s')" "spaced t (query s') changes"
    using s' sp by simp_all
  note rest = input_changes_spaced [OF this, of search, where ?'f = 'f]
  have all: "(input_changes search ((t, v) # changes) s :: 'f event list \<times> search_state) =
    ([], s'\<lparr>query := snd (last ((t, v) # changes)),
            timer := Some (fst (last ((t, v) # changes)) + 1000,
                           snd (last ((t, v) # changes)))\<rparr>)"
    using rest s' by simp
  show "(fst (input_changes search ((t, v) # changes) s) :: 'f event list) = []"
    by (simp only: all fst_conv)
  show "(changes_then_quiet search ((t, v) # changes) s :: 'f event list \<times> search_state) =
       ((let w = snd (last ((t, v) # changes)) in
         if w = debounce s then []
         else if w = [] then [Dispatch OnClearSearch]
         else Refetch w # (if search = GROUPS then [SearchGroups search w] else [])),
        \<lparr>query = snd (last ((t, v) # changes)), debounce = snd (last ((t, v) # changes)),
         timer = None\<rparr>)"
    unfolding changes_then_quiet_def all
    by (simp add: timer_fires_def debounce_effect_def s'(4) Let_def)
next
  assume "timer s = Some (due, []) \<and> debounce s \<noteq> []"
  then show "(timer_fires search s :: 'f event list \<times> search_state) =
       ([Dispatch OnClearSearch], s\<lparr>debounce := [], timer := None\<rparr>)"
    by (auto simp: timer_fires_def debounce_effect_def)
qed

theorem burst_ends_in_one_debounced_update_witness:
  "idle mounted \<and> ''a'' \<noteq> query mounted \<and> spaced 100 ''a'' [(600, ''al''), (1500, ''alp'')] \<and>
   fst (changes_then_quiet GROUPS [(100, ''a''), (600, ''al''), (1500, ''alp'')] mounted) =
     ([Refetch ''alp'', SearchGroups GROUPS ''alp''] :: nat event list) \<and>
   idle after_alp \<and> spaced 5000 ''al'' [(5500, ''a''), (6000, [])] \<and>
   fst (changes_then_quiet GROUPS [(5000, ''al''), (5500, ''a''), (6000, [])] after_alp) =
     ([Dispatch OnClearSearch] :: nat event list) \<and>
   timer emptied = Some (7000, []) \<and> debounce emptied \<noteq> [] \<and>
   fst (timer_fires GROUPS emptied) = ([Dispatch OnClearSearch] :: nat event list)"
  using burst_ends_in_one_debounced_update
      [of mounted "''a''" 100 "[(600, ''al''), (1500, ''alp'')]" GROUPS 0, where ?'f = nat]
    burst_ends_in_one_debounced_update
      [of after_alp "''al''" 5000 "[(5500, ''a''), (6000, [])]" GROUPS 0, where ?'f = nat]
    burst_ends_in_one_debounced_update
      [of emptied "''a''" 8000 "[]" GROUPS 7000, where ?'f = nat]
  by (simp add: mounted_def after_alp_def emptied_def useSearch_mount_def idle_def Let_def)

text \<open>
  Claim C5 as stated fails: the user types a letter and deletes it half a second later.
  The two changes are less than 1000 ms apart, and no query fires, neither during the
  changes nor after them.
\<close>

theorem burst_back_to_empty_fires_no_query:
  "spaced 100 ''a'' [(600, [])] \<and>
   fst (changes_then_quiet GROUPS [(100, ''a''), (600, [])] mounted) = ([] :: nat event list)"
  by (simp add: mounted_def useSearch_mount_def changes_then_quiet_def onSearchQuery_def
      advance_def timer_fires_def debounce_effect_def)

end
